theory Spec2Isabelle
  imports Main "HOL-Library.AList"
begin

section \<open>The background-agent supervisor (cursor-background-agent.js)\<close>

text \<open>
  A shallow embedding of the class \<open>CursorBackgroundAgent\<close>. Every method becomes a
  function from the state before the call to the state after it; an \<open>async\<close> method is
  modelled by what has happened when its promise settles. What the outside world
  answers during one call (the clock, the child's reaction to a signal, the disk, the
  GitHub client) is read from an \<open>env\<close> record.
\<close>

subsection \<open>Data\<close>

text \<open>The \<open>ChildProcess\<close> handle kept in \<open>this.process\<close>: its pid and whether the
  operating system still has the child.\<close>

record child =
  pid :: nat
  alive :: bool

text \<open>An entry of \<open>memoryStore\<close>: an opaque payload and the \<open>timestamp\<close> that
  \<open>performMemoryCleanup\<close> reads (milliseconds, as \<open>Date.now()\<close> gives them).\<close>

record entry =
  payload :: string
  timestamp :: int

datatype level = Info | Warning | Err | Success

datatype event = Started | Stopped | Exited | Failed | ErrorEv string

datatype task = HealthCheckTask | MemoryCleanupTask | GitHubSyncTask

datatype error = TypeError string | SpawnError string

fun message :: "error \<Rightarrow> string" where
  "message (TypeError m) = m"
| "message (SpawnError m) = m"

text \<open>What a property read on the instance yields: a boolean or a function.\<close>

datatype jsval = JSBoolean bool | JSFunction

text \<open>
  The instance fields set by the constructor (lines 17-43) and by \<open>startMainProcess\<close>
  and \<open>startMonitoring\<close>, followed by the part of the world the methods act on: the
  interval timers of the event loop (\<open>timers\<close>, each with the task it fires), the three
  files under \<open>.cursor\<close>, the console of \<open>printInfo\<close> and its siblings, the events
  emitted so far and the number of \<open>spawn\<close> calls. \<open>memoryStore\<close> is a JavaScript
  \<open>Map\<close>: an association list in insertion order. The memory file is modelled by the
  object its JSON text denotes (\<open>None\<close>: missing or not parseable).
\<close>

record agent =
  port :: nat
  process :: "child option"
  isRunning :: bool
  restartCount :: nat
  maxRestarts :: nat
  startTime :: "int option"
  githubAPI :: bool
  githubConnected :: bool
  memoryStore :: "(string \<times> entry) list"
  healthCheckInterval :: "nat option"
  memoryCleanupInterval :: "nat option"
  githubSyncInterval :: "nat option"
  timers :: "(nat \<times> task) list"
  nextTimer :: nat
  memoryFile :: "(string \<times> entry) list option"
  pidFile :: "nat option"
  logFile :: "string list"
  console :: "(level \<times> string) list"
  emitted :: "event list"
  spawned :: nat

text \<open>The answers of the outside world during one call.\<close>

record env =
  now :: int \<comment> \<open>\<open>Date.now()\<close>\<close>
  exitsOnSigterm :: bool \<comment> \<open>the child exits within the 5 s grace period\<close>
  heapUsed :: nat \<comment> \<open>\<open>process.memoryUsage().heapUsed\<close>\<close>
  importOk :: bool \<comment> \<open>\<open>import('./github/github-api.js')\<close> resolves\<close>
  authResult :: "bool option" \<comment> \<open>\<open>authenticate()\<close>; \<open>None\<close>: it throws\<close>
  listResult :: "(bool \<times> string) option"
    \<comment> \<open>\<open>listRepositories\<close>: \<open>success\<close> and \<open>data\<close>; \<open>None\<close>: it throws\<close>
  writeOk :: bool \<comment> \<open>\<open>writeFile\<close> succeeds\<close>
  configFile :: "nat option option"
    \<comment> \<open>config.json: \<open>None\<close> unreadable, else its truthy \<open>backgroundAgent.port\<close>, if any\<close>
  spawnPid :: nat
  spawnError :: bool \<comment> \<open>the child emits \<open>error\<close> instead of starting\<close>

subsection \<open>Console, log file, timers\<close>

definition print :: "level \<Rightarrow> string \<Rightarrow> agent \<Rightarrow> agent" where
  "print l m s = s\<lparr>console := console s @ [(l, m)]\<rparr>"

text \<open>\<open>log\<close> (lines 515-523): append to the log file; a write error is ignored.\<close>

definition log :: "string \<Rightarrow> agent \<Rightarrow> agent" where
  "log m s = s\<lparr>logFile := logFile s @ [m]\<rparr>"

definition setInterval :: "task \<Rightarrow> agent \<Rightarrow> nat \<times> agent" where
  "setInterval t s =
     (nextTimer s, s\<lparr>timers := timers s @ [(nextTimer s, t)], nextTimer := nextTimer s + 1\<rparr>)"

definition clearInterval :: "nat \<Rightarrow> agent \<Rightarrow> agent" where
  "clearInterval h s = s\<lparr>timers := filter (\<lambda>(i, t). i \<noteq> h) (timers s)\<rparr>"

text \<open>\<open>startMonitoring\<close> (lines 299-314).\<close>

definition startMonitoring :: "agent \<Rightarrow> agent" where
  "startMonitoring s =
     (let (h, s1) = setInterval HealthCheckTask s;
          s2 = s1\<lparr>healthCheckInterval := Some h\<rparr>;
          (m, s3) = setInterval MemoryCleanupTask s2;
          s4 = s3\<lparr>memoryCleanupInterval := Some m\<rparr>;
          (g, s5) = setInterval GitHubSyncTask s4
      in s5\<lparr>githubSyncInterval := Some g\<rparr>)"

text \<open>\<open>stopMonitoring\<close> (lines 319-329).\<close>

definition stopMonitoring :: "agent \<Rightarrow> agent" where
  "stopMonitoring s =
     (let s1 = (case healthCheckInterval s of Some h \<Rightarrow> clearInterval h s | None \<Rightarrow> s);
          s2 = (case memoryCleanupInterval s1 of Some m \<Rightarrow> clearInterval m s1 | None \<Rightarrow> s1)
      in (case githubSyncInterval s2 of Some g \<Rightarrow> clearInterval g s2 | None \<Rightarrow> s2))"

text \<open>\<open>emit\<close> runs the listeners of \<open>setupEventHandlers\<close> (lines 528-546)
  synchronously; \<open>exited\<close> has no listener.\<close>

fun emit :: "event \<Rightarrow> agent \<Rightarrow> agent" where
  "emit Started s = log ''Background agent started'' (s\<lparr>emitted := emitted s @ [Started]\<rparr>)"
| "emit Stopped s =
     stopMonitoring (log ''Background agent stopped'' (s\<lparr>emitted := emitted s @ [Stopped]\<rparr>))"
| "emit (ErrorEv m) s = log (''ERROR: '' @ m) (s\<lparr>emitted := emitted s @ [ErrorEv m]\<rparr>)"
| "emit Failed s =
     stopMonitoring
       (log ''Background agent failed permanently'' (s\<lparr>emitted := emitted s @ [Failed]\<rparr>))"
| "emit Exited s = s\<lparr>emitted := emitted s @ [Exited]\<rparr>"

subsection \<open>Construction and status\<close>

text \<open>The constructor (lines 17-43) with default options, in a world with no files.\<close>

definition new_agent :: agent where
  "new_agent =
     \<lparr>port = 3001, process = None, isRunning = False, restartCount = 0, maxRestarts = 5,
      startTime = None, githubAPI = False, githubConnected = False, memoryStore = [],
      healthCheckInterval = None, memoryCleanupInterval = None, githubSyncInterval = None,
      timers = [], nextTimer = 0, memoryFile = None, pidFile = None, logFile = [],
      console = [], emitted = [], spawned = 0\<rparr>"

record status =
  st_isRunning :: bool
  st_pid :: "nat option"
  st_port :: nat
  st_restartCount :: nat
  st_uptime :: int
  st_githubConnected :: bool
  st_memoryEntries :: nat

text \<open>\<open>getStatus\<close> (lines 120-132).\<close>

definition getStatus :: "env \<Rightarrow> agent \<Rightarrow> status" where
  "getStatus e s =
     \<lparr>st_isRunning = isRunning s,
      st_pid = map_option pid (process s),
      st_port = port s,
      st_restartCount = restartCount s,
      st_uptime = (case startTime s of Some t \<Rightarrow> now e - t | None \<Rightarrow> 0),
      st_githubConnected = githubConnected s,
      st_memoryEntries = length (memoryStore s)\<rparr>"

subsection \<open>The memory store\<close>

text \<open>\<open>Map.prototype.set\<close> is \<open>AList.update\<close> (an existing key keeps its place, a new
  one goes last) and \<open>Map.prototype.delete\<close> is \<open>AList.delete\<close>.
  \<open>Object.fromEntries\<close> and the loop over \<open>Object.entries\<close> define the properties one
  by one.\<close>

definition fromEntries :: "(string \<times> entry) list \<Rightarrow> (string \<times> entry) list" where
  "fromEntries m = fold (\<lambda>(k, v) ob. AList.update k v ob) m []"

text \<open>\<open>saveMemory\<close> (lines 503-510).\<close>

definition saveMemory :: "env \<Rightarrow> agent \<Rightarrow> agent" where
  "saveMemory e s =
     (if writeOk e then s\<lparr>memoryFile := Some (fromEntries (memoryStore s))\<rparr>
      else print Warning ''Failed to save memory'' s)"

text \<open>\<open>loadMemory\<close> (lines 487-498).\<close>

definition loadMemory :: "agent \<Rightarrow> agent" where
  "loadMemory s =
     (case memoryFile s of
        None \<Rightarrow> s
      | Some memoryData \<Rightarrow>
          s\<lparr>memoryStore := fold (\<lambda>(key, v) m. AList.update key v m) memoryData (memoryStore s)\<rparr>)"

definition age :: "env \<Rightarrow> entry \<Rightarrow> int" where
  "age e en = now e - timestamp en"

definition maxAge :: int where
  "maxAge = 24 * 60 * 60 * 1000"

text \<open>The loop of lines 372-376: it walks the entries and deletes from the store it
  walks.\<close>

fun evict :: "env \<Rightarrow> (string \<times> entry) list \<Rightarrow> (string \<times> entry) list \<Rightarrow> (string \<times> entry) list" where
  "evict e [] store = store"
| "evict e ((key, en) # rest) store =
     evict e rest (if now e - timestamp en > maxAge then AList.delete key store else store)"

text \<open>\<open>performMemoryCleanup\<close> (lines 366-385).\<close>

definition performMemoryCleanup :: "env \<Rightarrow> agent \<Rightarrow> agent" where
  "performMemoryCleanup e s =
     log ''Memory cleanup completed''
       (saveMemory e (s\<lparr>memoryStore := evict e (memoryStore s) (memoryStore s)\<rparr>))"

subsection \<open>Collaborators\<close>

text \<open>\<open>initializeGitHubIntegration\<close> (lines 151-167).\<close>

definition initializeGitHubIntegration :: "env \<Rightarrow> agent \<Rightarrow> agent" where
  "initializeGitHubIntegration e s =
     (if \<not> importOk e then print Warning ''GitHub integration error'' s
      else
        (let s1 = s\<lparr>githubAPI := True\<rparr> in
         case authResult e of
           None \<Rightarrow> print Warning ''GitHub integration error'' s1
         | Some connected \<Rightarrow>
             (let s2 = s1\<lparr>githubConnected := connected\<rparr> in
              if connected then print Info ''GitHub integration initialized'' s2
              else print Warning ''GitHub integration failed to connect'' s2)))"

text \<open>\<open>initializeMemoryManagement\<close> (lines 172-180).\<close>

definition initializeMemoryManagement :: "agent \<Rightarrow> agent" where
  "initializeMemoryManagement s = print Info ''Memory management initialized'' (loadMemory s)"

text \<open>\<open>loadConfiguration\<close> (lines 185-200); the log level is not modelled.\<close>

definition loadConfiguration :: "env \<Rightarrow> agent \<Rightarrow> agent" where
  "loadConfiguration e s =
     (case configFile e of
        None \<Rightarrow> print Warning ''Configuration load error'' s
      | Some cfg \<Rightarrow>
          print Info ''Configuration loaded''
            (case cfg of Some p \<Rightarrow> s\<lparr>port := p\<rparr> | None \<Rightarrow> s))"

text \<open>\<open>initializeComponents\<close> (lines 137-146).\<close>

definition initializeComponents :: "env \<Rightarrow> agent \<Rightarrow> agent" where
  "initializeComponents e s =
     loadConfiguration e (initializeMemoryManagement (initializeGitHubIntegration e s))"

text \<open>
  \<open>performGitHubSync\<close> (lines 390-418). No statement of the class assigns
  \<open>this.memoryManager\<close>, so reading it gives \<open>undefined\<close> and the call of its \<open>store\<close>
  at line 400 throws a \<open>TypeError\<close>, which the \<open>catch\<close> of line 415 prints. The class
  has no code for \<open>store\<close> itself; the branch for a defined manager only returns.
\<close>

definition memoryManager :: "agent \<Rightarrow> unit option" where
  "memoryManager s = None"

definition memoryManager_store :: "string \<Rightarrow> agent \<Rightarrow> (error \<times> agent) + agent" where
  "memoryManager_store content s =
     (case memoryManager s of
        None \<Rightarrow> Inl (TypeError ''Cannot read properties of undefined (reading store)'', s)
      | Some m \<Rightarrow> Inr s)"

definition performGitHubSync :: "env \<Rightarrow> agent \<Rightarrow> agent" where
  "performGitHubSync e s =
     (if \<not> githubAPI s \<or> \<not> githubConnected s then s
      else
        (case listResult e of
           None \<Rightarrow> print Err ''GitHub sync failed: request error'' s
         | Some (success, repos) \<Rightarrow>
             if success then
               (case memoryManager_store repos s of
                  Inl (err, s1) \<Rightarrow> print Err (''GitHub sync failed: '' @ message err) s1
                | Inr s1 \<Rightarrow> log ''GitHub sync completed for swarm coordination'' s1)
             else s))"

subsection \<open>The managed process\<close>

text \<open>\<open>savePID\<close> (lines 476-482).\<close>

definition savePID :: "env \<Rightarrow> agent \<Rightarrow> agent" where
  "savePID e s =
     (case process s of
        None \<Rightarrow> print Warning ''Failed to save PID'' s
      | Some p \<Rightarrow>
          if writeOk e then s\<lparr>pidFile := Some (pid p)\<rparr>
          else print Warning ''Failed to save PID'' s)"

text \<open>
  \<open>startMainProcess\<close> (lines 205-294): \<open>spawn\<close>, then either the child's \<open>error\<close>
  event rejects the promise, or the timer of line 284 sets the running flag one second
  later and resolves it. The state is the one in which the promise settles.
\<close>

definition startMainProcess :: "env \<Rightarrow> agent \<Rightarrow> (error \<times> agent) + agent" where
  "startMainProcess e s =
     (let s1 = s\<lparr>process := Some \<lparr>pid = spawnPid e, alive = \<not> spawnError e\<rparr>,
                 spawned := spawned s + 1\<rparr>
      in if spawnError e
         then Inl (SpawnError ''spawn failed'', print Err ''Process error: spawn failed'' s1)
         else Inr (savePID e (s1\<lparr>isRunning := True, startTime := Some (now e)\<rparr>)))"

text \<open>The \<open>exit\<close> listener that \<open>startMainProcess\<close> installs (lines 261-265).\<close>

definition onExit :: "agent \<Rightarrow> agent" where
  "onExit s = emit Exited ((print Info ''Process exited'' s)\<lparr>isRunning := False\<rparr>)"

text \<open>
  \<open>waitForProcessExit\<close> (lines 438-456), called right after \<open>kill('SIGTERM')\<close>. A live
  child either exits in time, or the timer sends \<open>SIGKILL\<close> and the child exits then;
  both ways its \<open>exit\<close> listener runs. A child that had already exited emits nothing,
  so the timer runs out.
\<close>

definition waitForProcessExit :: "env \<Rightarrow> agent \<Rightarrow> agent" where
  "waitForProcessExit e s =
     (case process s of
        None \<Rightarrow> s
      | Some p \<Rightarrow>
          if alive p \<and> exitsOnSigterm e then onExit (s\<lparr>process := Some (p\<lparr>alive := False\<rparr>)\<rparr>)
          else
            (let s1 = print Warning ''Process exit timeout, forcing kill'' s in
             if alive p then onExit (s1\<lparr>process := Some (p\<lparr>alive := False\<rparr>)\<rparr>) else s1))"

text \<open>The method \<open>isRunning()\<close> of the prototype (lines 461-471): the signal-0
  probe.\<close>

definition isRunning_method :: "agent \<Rightarrow> bool" where
  "isRunning_method s = (case process s of None \<Rightarrow> False | Some p \<Rightarrow> alive p)"

text \<open>
  What \<open>this.isRunning\<close> evaluates to. The constructor assigns \<open>this.isRunning = false\<close>
  (line 29), which creates an own data property of the instance; it shadows the method
  of the prototype, and every later assignment (lines 97, 263, 285) stores a boolean
  again.
\<close>

definition get_isRunning :: "agent \<Rightarrow> jsval" where
  "get_isRunning s = JSBoolean (isRunning s)"

text \<open>The call \<open>this.isRunning()\<close> of line 53: calling a boolean throws.\<close>

definition call_isRunning :: "agent \<Rightarrow> error + bool" where
  "call_isRunning s =
     (case get_isRunning s of
        JSBoolean b \<Rightarrow> Inl (TypeError ''this.isRunning is not a function'')
      | JSFunction \<Rightarrow> Inr (isRunning_method s))"

subsection \<open>start, stop, restart\<close>

text \<open>The \<open>try\<close> block of \<open>start\<close> (lines 50-69).\<close>

definition start_body :: "env \<Rightarrow> agent \<Rightarrow> (error \<times> agent) + (bool \<times> agent)" where
  "start_body e s =
     (let s0 = print Info ''Starting Cursor background agent...'' s in
      case call_isRunning s0 of
        Inl err \<Rightarrow> Inl (err, s0)
      | Inr running \<Rightarrow>
          if running then Inr (True, print Warning ''Background agent is already running'' s0)
          else
            (case startMainProcess e (initializeComponents e s0) of
               Inl x \<Rightarrow> Inl x
             | Inr s1 \<Rightarrow>
                 Inr (True,
                   emit Started
                     (print Success ''Cursor background agent started successfully''
                        (startMonitoring s1)))))"

text \<open>\<open>start\<close> (lines 48-75).\<close>

definition start :: "env \<Rightarrow> agent \<Rightarrow> bool \<times> agent" where
  "start e s =
     (case start_body e s of
        Inr r \<Rightarrow> r
      | Inl (err, s1) \<Rightarrow>
          (False,
           emit (ErrorEv (message err))
             (print Err (''Failed to start background agent: '' @ message err) s1)))"

text \<open>
  \<open>stop\<close> (lines 80-105). \<open>kill('SIGTERM')\<close> changes no field by itself; what the child
  does with the signal is \<open>waitForProcessExit\<close>. The inner \<open>try\<close> of lines 90-95
  removes the pid file if there is one. Nothing in the outer \<open>try\<close> block throws, so the
  \<open>catch\<close> of line 101 is never entered. \<open>this.process\<close> is not reset: after \<open>stop\<close> it
  still holds the handle of the child that has exited.
\<close>

definition stop :: "env \<Rightarrow> agent \<Rightarrow> bool \<times> agent" where
  "stop e s =
     (let s1 = print Info ''Stopping Cursor background agent...'' s;
          s2 = (case process s1 of Some p \<Rightarrow> waitForProcessExit e s1 | None \<Rightarrow> s1);
          s3 = s2\<lparr>pidFile := None\<rparr>;
          s4 = s3\<lparr>isRunning := False\<rparr>;
          s5 = print Success ''Cursor background agent stopped'' s4
      in (True, emit Stopped s5))"

text \<open>\<open>restart\<close> (lines 110-115).\<close>

definition restart :: "env \<Rightarrow> agent \<Rightarrow> bool \<times> agent" where
  "restart e s =
     start e (snd (stop e (print Info ''Restarting Cursor background agent...'' s)))"

text \<open>\<open>cleanup\<close> (lines 551-555), which the signal handlers of the command line call.\<close>

definition cleanup :: "env \<Rightarrow> agent \<Rightarrow> agent" where
  "cleanup e s = snd (stop e (saveMemory e (stopMonitoring s)))"

subsection \<open>Health check and bounded retry\<close>

text \<open>\<open>handleProcessFailure\<close> (lines 423-433).\<close>

definition handleProcessFailure :: "env \<Rightarrow> agent \<Rightarrow> agent" where
  "handleProcessFailure e s =
     (let s1 = s\<lparr>restartCount := restartCount s + 1\<rparr> in
      if restartCount s1 \<le> maxRestarts s1
      then snd (restart e (print Warning ''Process failed, restarting'' s1))
      else emit Failed (print Err ''Max restart attempts exceeded, giving up'' s1))"

text \<open>The test of line 337.\<close>

definition detects_failure :: "agent \<Rightarrow> bool" where
  "detects_failure s = (\<not> isRunning s \<or> process s = None)"

text \<open>\<open>performHealthCheck\<close> (lines 334-361).\<close>

definition performHealthCheck :: "env \<Rightarrow> agent \<Rightarrow> agent" where
  "performHealthCheck e s =
     (if detects_failure s
      then handleProcessFailure e (print Warning ''Background agent process not running'' s)
      else
        (let s1 = (if heapUsed e > 100 * 1024 * 1024
                   then performMemoryCleanup e (print Warning ''High memory usage detected'' s)
                   else s);
             s2 = (if githubAPI s1 \<and> \<not> githubConnected s1
                   then initializeGitHubIntegration e
                          (print Warning ''GitHub connection lost, attempting to reconnect...'' s1)
                   else s1)
         in log ''Health check passed'' s2))"

subsection \<open>Runs\<close>

text \<open>
  The calls a supervisor receives over its lifetime: the four host calls, the three
  periodic tasks, the exit of the child by itself or by an external kill, and the
  \<open>cleanup\<close> of the signal handlers.
\<close>

datatype call = Start | Stop | Restart | Status | HealthCheck | MemoryCleanup | GitHubSync
  | ProcessExit | Cleanup

fun step :: "call \<times> env \<Rightarrow> agent \<Rightarrow> agent" where
  "step (Start, e) s = snd (start e s)"
| "step (Stop, e) s = snd (stop e s)"
| "step (Restart, e) s = snd (restart e s)"
| "step (Status, e) s = s"
| "step (HealthCheck, e) s = performHealthCheck e s"
| "step (MemoryCleanup, e) s = performMemoryCleanup e s"
| "step (GitHubSync, e) s = performGitHubSync e s"
| "step (ProcessExit, e) s =
     (case process s of
        None \<Rightarrow> s
      | Some p \<Rightarrow> if alive p then onExit (s\<lparr>process := Some (p\<lparr>alive := False\<rparr>)\<rparr>) else s)"
| "step (Cleanup, e) s = cleanup e s"

definition run :: "(call \<times> env) list \<Rightarrow> agent \<Rightarrow> agent" where
  "run cs s = fold step cs s"

text \<open>Every live interval is held by one of the three handle fields.\<close>

definition tracked :: "agent \<Rightarrow> bool" where
  "tracked s =
     list_all
       (\<lambda>(i, t). healthCheckInterval s = Some i \<or> memoryCleanupInterval s = Some i
          \<or> githubSyncInterval s = Some i)
       (timers s)"

subsection \<open>Auxiliary notions and sample inputs\<close>

text \<open>A key of \<open>xs\<close> that the loop of \<open>evict\<close> finds older than \<open>maxAge\<close>.\<close>

definition expired :: "env \<Rightarrow> (string \<times> entry) list \<Rightarrow> string \<Rightarrow> bool" where
  "expired e xs k = list_ex (\<lambda>(k', en). k' = k \<and> now e - timestamp en > maxAge) xs"

text \<open>An environment at time 0 in which the disk works, the child obeys \<open>SIGTERM\<close>
  and the GitHub client is absent.\<close>

definition env0 :: env where
  "env0 =
     \<lparr>now = 0, exitsOnSigterm = True, heapUsed = 0, importOk = False, authResult = None,
      listResult = None, writeOk = True, configFile = None, spawnPid = 4242,
      spawnError = False\<rparr>"

text \<open>A supervisor as \<open>startMainProcess\<close> and \<open>startMonitoring\<close> would leave it: a live
  child, the running flag set and the three intervals armed.\<close>

definition armed_agent :: agent where
  "armed_agent =
     startMonitoring
       (new_agent\<lparr>process := Some \<lparr>pid = 4242, alive = True\<rparr>, isRunning := True,
          startTime := Some 0\<rparr>)"


text \<open>The lines that \<open>printError\<close> has written.\<close>

definition error_lines :: "agent \<Rightarrow> (level \<times> string) list" where
  "error_lines s = filter (\<lambda>(l, m). l = Err) (console s)"

text \<open>The child handle after the child has exited.\<close>

definition exited :: "child \<Rightarrow> child" where
  "exited p = p\<lparr>alive := False\<rparr>"

text \<open>Health checks in succession, one environment each.\<close>

definition health_checks :: "env list \<Rightarrow> agent \<Rightarrow> agent" where
  "health_checks es s = fold performHealthCheck es s"

text \<open>The number of health checks of a run that find the process down.\<close>

fun failures :: "(call \<times> env) list \<Rightarrow> agent \<Rightarrow> nat" where
  "failures [] s = 0"
| "failures ((c, e) # cs) s =
     (if c = HealthCheck \<and> detects_failure s then 1 else 0) + failures cs (step (c, e) s)"

text \<open>A supervisor whose GitHub client is connected, and an environment in which
  \<open>listRepositories\<close> succeeds.\<close>

definition connected_agent :: agent where
  "connected_agent = new_agent\<lparr>githubAPI := True, githubConnected := True\<rparr>"

definition env_sync :: env where
  "env_sync = env0\<lparr>listResult := Some (True, ''[repo]'')\<rparr>"

text \<open>A store with one entry of 1970 and one of a millisecond ago, and the clock at
  \<open>10\<^sup>8\<close> ms (the limit of 24 h is 86400000 ms).\<close>

definition sample_store :: "(string \<times> entry) list" where
  "sample_store =
     [(''stale'', \<lparr>payload = ''a'', timestamp = 0\<rparr>),
      (''fresh'', \<lparr>payload = ''b'', timestamp = 99999999\<rparr>)]"

definition env_late :: env where
  "env_late = env0\<lparr>now := 100000000\<rparr>"

text \<open>Five health checks with a \<open>stop\<close>, a \<open>restart\<close>, a \<open>start\<close> and a cleanup
  between them.\<close>

definition interleaved_calls :: "(call \<times> env) list" where
  "interleaved_calls =
     [(HealthCheck, env0), (Stop, env0), (HealthCheck, env0), (Restart, env0),
      (HealthCheck, env0), (Start, env0), (HealthCheck, env0), (MemoryCleanup, env_late),
      (HealthCheck, env0)]"

section \<open>Properties\<close>

subsection \<open>Helper lemmas\<close>

lemma update_fresh: "k \<notin> fst ` set al \<Longrightarrow> AList.update k v al = al @ [(k, v)]"
  by (induction al) auto

lemma fold_update_distinct:
  "distinct (map fst (acc @ m)) \<Longrightarrow> fold (\<lambda>(k, v) ob. AList.update k v ob) m acc = acc @ m"
proof (induction m arbitrary: acc)
  case Nil
  then show ?case by simp
next
  case (Cons p m)
  obtain k v where p: "p = (k, v)" by (cases p)
  from Cons.prems have fresh: "k \<notin> fst ` set acc" by (auto simp: p)
  from Cons.prems have "distinct (map fst ((acc @ [(k, v)]) @ m))" by (simp add: p)
  from Cons.IH[OF this] show ?case by (simp add: p update_fresh[OF fresh])
qed

lemma fromEntries_distinct: "distinct (map fst m) \<Longrightarrow> fromEntries m = m"
  using fold_update_distinct[of "[]" m] by (simp add: fromEntries_def)




lemma expired_Cons:
  "expired e ((key, en) # xs) k = ((key = k \<and> now e - timestamp en > maxAge) \<or> expired e xs k)"
  by (simp add: expired_def)

lemma evict_filter:
  "evict e xs st = filter (\<lambda>p. \<not> expired e xs (fst p)) st"
proof (induction xs arbitrary: st)
  case Nil
  then show ?case by (simp add: expired_def)
next
  case (Cons p xs)
  obtain key en where p: "p = (key, en)" by (cases p)
  show ?case
  proof (cases "now e - timestamp en > maxAge")
    case True
    have "filter (\<lambda>p. \<not> expired e xs (fst p)) (AList.delete key st)
        = filter (\<lambda>p. \<not> expired e ((key, en) # xs) (fst p)) st"
      unfolding AList.delete_eq filter_filter
      by (rule filter_cong[OF refl]) (auto simp add: expired_Cons True split_beta)
    then show ?thesis by (simp add: p Cons.IH True)
  next
    case False
    then show ?thesis by (simp add: p Cons.IH expired_Cons)
  qed
qed

lemma evict_self:
  assumes "distinct (map fst st)"
  shows "evict e st st = filter (\<lambda>(k, en). age e en \<le> maxAge) st"
  unfolding evict_filter
proof (rule filter_cong[OF refl])
  fix x assume x: "x \<in> set st"
  obtain k v where kv: "x = (k, v)" by (cases x)
  have "\<And>en. (k, en) \<in> set st \<Longrightarrow> en = v"
    using assms x kv by (meson eq_key_imp_eq_value)
  then have "expired e st k = (now e - timestamp v > maxAge)"
    using x kv unfolding expired_def list_ex_iff by blast
  then show "(\<not> expired e st (fst x)) = (case x of (k, en) \<Rightarrow> age e en \<le> maxAge)"
    by (simp add: kv age_def not_less)
qed

lemma start_fails:
  "start e s = (False, emit (ErrorEv ''this.isRunning is not a function'')
     (print Err ''Failed to start background agent: this.isRunning is not a function''
        (print Info ''Starting Cursor background agent...'' s)))"
  by (simp add: start_def start_body_def call_isRunning_def get_isRunning_def)

lemma timers_stopMonitoring_eq:
  "timers (stopMonitoring s) =
     filter (\<lambda>p. healthCheckInterval s \<noteq> Some (fst p) \<and> memoryCleanupInterval s \<noteq> Some (fst p)
        \<and> githubSyncInterval s \<noteq> Some (fst p)) (timers s)"
  by (cases "healthCheckInterval s"; cases "memoryCleanupInterval s"; cases "githubSyncInterval s")
     (auto simp: stopMonitoring_def clearInterval_def split_beta intro!: filter_cong)

lemma timers_stopMonitoring:
  "tracked s \<Longrightarrow> timers (stopMonitoring s) = []"
  unfolding timers_stopMonitoring_eq
  by (auto simp: tracked_def list_all_iff filter_empty_conv)

lemma stopMonitoring_frame:
  "restartCount (stopMonitoring s) = restartCount s"
  "maxRestarts (stopMonitoring s) = maxRestarts s"
  "isRunning (stopMonitoring s) = isRunning s"
  "process (stopMonitoring s) = process s"
  "spawned (stopMonitoring s) = spawned s"
  "memoryStore (stopMonitoring s) = memoryStore s"
  "emitted (stopMonitoring s) = emitted s"
  "console (stopMonitoring s) = console s"
  "healthCheckInterval (stopMonitoring s) = healthCheckInterval s"
  "memoryCleanupInterval (stopMonitoring s) = memoryCleanupInterval s"
  "githubSyncInterval (stopMonitoring s) = githubSyncInterval s"
  "githubAPI (stopMonitoring s) = githubAPI s"
  "githubConnected (stopMonitoring s) = githubConnected s"
  by (simp_all add: stopMonitoring_def clearInterval_def split: option.splits)

lemma print_frame:
  "restartCount (print l m s) = restartCount s"
  "maxRestarts (print l m s) = maxRestarts s"
  "isRunning (print l m s) = isRunning s"
  "process (print l m s) = process s"
  "spawned (print l m s) = spawned s"
  "memoryStore (print l m s) = memoryStore s"
  "emitted (print l m s) = emitted s"
  "timers (print l m s) = timers s"
  "healthCheckInterval (print l m s) = healthCheckInterval s"
  "memoryCleanupInterval (print l m s) = memoryCleanupInterval s"
  "githubSyncInterval (print l m s) = githubSyncInterval s"
  "githubAPI (print l m s) = githubAPI s"
  "githubConnected (print l m s) = githubConnected s"
  "console (print l m s) = console s @ [(l, m)]"
  by (simp_all add: print_def)

lemma log_frame:
  "restartCount (log m s) = restartCount s"
  "maxRestarts (log m s) = maxRestarts s"
  "isRunning (log m s) = isRunning s"
  "process (log m s) = process s"
  "spawned (log m s) = spawned s"
  "memoryStore (log m s) = memoryStore s"
  "emitted (log m s) = emitted s"
  "timers (log m s) = timers s"
  "healthCheckInterval (log m s) = healthCheckInterval s"
  "memoryCleanupInterval (log m s) = memoryCleanupInterval s"
  "githubSyncInterval (log m s) = githubSyncInterval s"
  "githubAPI (log m s) = githubAPI s"
  "githubConnected (log m s) = githubConnected s"
  "console (log m s) = console s"
  by (simp_all add: log_def)

declare emit.simps [simp del]

lemma emit_frame:
  "restartCount (emit ev s) = restartCount s"
  "maxRestarts (emit ev s) = maxRestarts s"
  "isRunning (emit ev s) = isRunning s"
  "process (emit ev s) = process s"
  "spawned (emit ev s) = spawned s"
  "memoryStore (emit ev s) = memoryStore s"
  "emitted (emit ev s) = emitted s @ [ev]"
  "console (emit ev s) = console s"
  "healthCheckInterval (emit ev s) = healthCheckInterval s"
  "memoryCleanupInterval (emit ev s) = memoryCleanupInterval s"
  "githubSyncInterval (emit ev s) = githubSyncInterval s"
  "githubAPI (emit ev s) = githubAPI s"
  "githubConnected (emit ev s) = githubConnected s"
  by (cases ev; simp add: emit.simps stopMonitoring_frame log_frame)+

lemma timers_emit:
  "timers (emit Started s) = timers s"
  "timers (emit Exited s) = timers s"
  "timers (emit (ErrorEv m) s) = timers s"
  by (simp_all add: emit.simps log_frame)

lemma timers_emit_stop:
  "tracked s \<Longrightarrow> timers (emit Stopped s) = []"
  "tracked s \<Longrightarrow> timers (emit Failed s) = []"
  by (simp_all add: emit.simps timers_stopMonitoring tracked_def log_def)

lemma start_frame:
  "fst (start e s) = False"
  "restartCount (snd (start e s)) = restartCount s"
  "maxRestarts (snd (start e s)) = maxRestarts s"
  "isRunning (snd (start e s)) = isRunning s"
  "process (snd (start e s)) = process s"
  "spawned (snd (start e s)) = spawned s"
  "memoryStore (snd (start e s)) = memoryStore s"
  "timers (snd (start e s)) = timers s"
  "healthCheckInterval (snd (start e s)) = healthCheckInterval s"
  "memoryCleanupInterval (snd (start e s)) = memoryCleanupInterval s"
  "githubSyncInterval (snd (start e s)) = githubSyncInterval s"
  "githubAPI (snd (start e s)) = githubAPI s"
  "githubConnected (snd (start e s)) = githubConnected s"
  by (simp_all add: start_fails emit_frame print_frame timers_emit)

subsection \<open>Claim C1: what \<open>start\<close> does\<close>

text \<open>
  C1 says that \<open>start()\<close> on a supervisor that is not running spawns the child, arms
  the three periodic tasks, sets the running flag and returns true, and that it warns and
  returns true when the supervisor is already running. The code does neither: in every
  state the call \<open>this.isRunning()\<close> of line 53 throws, so \<open>start\<close> returns false,
  emits \<open>error\<close>, and leaves the process handle, the number of spawns, the timers and
  the running flag as they were.
\<close>

theorem start_always_fails:
  "fst (start e s) = False
   \<and> process (snd (start e s)) = process s
   \<and> spawned (snd (start e s)) = spawned s
   \<and> timers (snd (start e s)) = timers s
   \<and> isRunning (snd (start e s)) = isRunning s
   \<and> emitted (snd (start e s)) = emitted s @ [ErrorEv ''this.isRunning is not a function'']"
  by (simp add: start_frame) (simp add: start_fails emit_frame print_frame)

theorem start_always_fails_witness:
  "fst (start env0 new_agent) = False
   \<and> process (snd (start env0 new_agent)) = None
   \<and> spawned (snd (start env0 new_agent)) = 0
   \<and> timers (snd (start env0 new_agent)) = []
   \<and> isRunning (snd (start env0 new_agent)) = False
   \<and> emitted (snd (start env0 new_agent)) = [ErrorEv ''this.isRunning is not a function'']
   \<and> fst (start env0 armed_agent) = False
   \<and> spawned (snd (start env0 armed_agent)) = 0"
  using start_always_fails[of env0 new_agent] start_always_fails[of env0 armed_agent]
  by (simp add: new_agent_def armed_agent_def startMonitoring_def setInterval_def)

lemma error_lines_simps:
  "error_lines (print Err m s) = error_lines s @ [(Err, m)]"
  "l \<noteq> Err \<Longrightarrow> error_lines (print l m s) = error_lines s"
  "error_lines (log m s) = error_lines s"
  "error_lines (emit ev s) = error_lines s"
  by (simp_all add: error_lines_def print_frame log_frame emit_frame)

lemma error_lines_update:
  "error_lines (s\<lparr>process := p\<rparr>) = error_lines s"
  "error_lines (s\<lparr>isRunning := b\<rparr>) = error_lines s"
  "error_lines (s\<lparr>pidFile := f\<rparr>) = error_lines s"
  "error_lines (s\<lparr>restartCount := n\<rparr>) = error_lines s"
  by (simp_all add: error_lines_def)

lemma onExit_frame:
  "restartCount (onExit s) = restartCount s"
  "maxRestarts (onExit s) = maxRestarts s"
  "isRunning (onExit s) = False"
  "process (onExit s) = process s"
  "spawned (onExit s) = spawned s"
  "memoryStore (onExit s) = memoryStore s"
  "emitted (onExit s) = emitted s @ [Exited]"
  "timers (onExit s) = timers s"
  "healthCheckInterval (onExit s) = healthCheckInterval s"
  "memoryCleanupInterval (onExit s) = memoryCleanupInterval s"
  "githubSyncInterval (onExit s) = githubSyncInterval s"
  "githubAPI (onExit s) = githubAPI s"
  "githubConnected (onExit s) = githubConnected s"
  "error_lines (onExit s) = error_lines s"
  by (simp_all add: onExit_def emit_frame timers_emit error_lines_simps)
     (simp_all add: print_def error_lines_def)

lemma waitForProcessExit_frame:
  "restartCount (waitForProcessExit e s) = restartCount s"
  "maxRestarts (waitForProcessExit e s) = maxRestarts s"
  "spawned (waitForProcessExit e s) = spawned s"
  "memoryStore (waitForProcessExit e s) = memoryStore s"
  "timers (waitForProcessExit e s) = timers s"
  "healthCheckInterval (waitForProcessExit e s) = healthCheckInterval s"
  "memoryCleanupInterval (waitForProcessExit e s) = memoryCleanupInterval s"
  "githubSyncInterval (waitForProcessExit e s) = githubSyncInterval s"
  "githubAPI (waitForProcessExit e s) = githubAPI s"
  "githubConnected (waitForProcessExit e s) = githubConnected s"
  "error_lines (waitForProcessExit e s) = error_lines s"
  "process (waitForProcessExit e s) = map_option exited (process s)"
  "emitted (waitForProcessExit e s) = emitted s @ (if isRunning_method s then [Exited] else [])"
  by (simp_all add: waitForProcessExit_def onExit_frame print_frame error_lines_simps Let_def
      error_lines_update exited_def isRunning_method_def split: option.splits)

lemma stop_frame:
  "fst (stop e s) = True"
  "isRunning (snd (stop e s)) = False"
  "restartCount (snd (stop e s)) = restartCount s"
  "maxRestarts (snd (stop e s)) = maxRestarts s"
  "spawned (snd (stop e s)) = spawned s"
  "memoryStore (snd (stop e s)) = memoryStore s"
  "healthCheckInterval (snd (stop e s)) = healthCheckInterval s"
  "memoryCleanupInterval (snd (stop e s)) = memoryCleanupInterval s"
  "githubSyncInterval (snd (stop e s)) = githubSyncInterval s"
  "githubAPI (snd (stop e s)) = githubAPI s"
  "githubConnected (snd (stop e s)) = githubConnected s"
  "error_lines (snd (stop e s)) = error_lines s"
  "process (snd (stop e s)) = map_option exited (process s)"
  "emitted (snd (stop e s)) = emitted s @ (if isRunning_method s then [Exited] else []) @ [Stopped]"
  by (simp_all add: stop_def Let_def emit_frame print_frame waitForProcessExit_frame
      error_lines_simps error_lines_update isRunning_method_def exited_def
      split: option.splits)

lemma tracked_Nil: "timers s = [] \<Longrightarrow> tracked s"
  by (simp add: tracked_def)

lemma tracked_simps:
  "tracked (print l m s) = tracked s"
  "tracked (log m s) = tracked s"
  "tracked (s\<lparr>restartCount := n\<rparr>) = tracked s"
  "tracked (s\<lparr>isRunning := b\<rparr>) = tracked s"
  "tracked (s\<lparr>process := p\<rparr>) = tracked s"
  "tracked (s\<lparr>pidFile := f\<rparr>) = tracked s"
  "tracked (s\<lparr>memoryStore := ms\<rparr>) = tracked s"
  "tracked (s\<lparr>memoryFile := mf\<rparr>) = tracked s"
  "tracked (s\<lparr>githubAPI := b\<rparr>) = tracked s"
  "tracked (s\<lparr>githubConnected := b\<rparr>) = tracked s"
  "tracked (s\<lparr>emitted := es\<rparr>) = tracked s"
  by (simp_all add: tracked_def print_def log_def)

lemma tracked_waitForProcessExit: "tracked (waitForProcessExit e s) = tracked s"
  by (simp add: tracked_def waitForProcessExit_frame)

lemma timers_stop: "tracked s \<Longrightarrow> timers (snd (stop e s)) = []"
  by (simp add: stop_def Let_def timers_emit_stop tracked_simps tracked_waitForProcessExit
      split: option.splits)

lemma restart_frame:
  "fst (restart e s) = False"
  "isRunning (snd (restart e s)) = False"
  "restartCount (snd (restart e s)) = restartCount s"
  "maxRestarts (snd (restart e s)) = maxRestarts s"
  "spawned (snd (restart e s)) = spawned s"
  "memoryStore (snd (restart e s)) = memoryStore s"
  "healthCheckInterval (snd (restart e s)) = healthCheckInterval s"
  "memoryCleanupInterval (snd (restart e s)) = memoryCleanupInterval s"
  "githubSyncInterval (snd (restart e s)) = githubSyncInterval s"
  "githubAPI (snd (restart e s)) = githubAPI s"
  "githubConnected (snd (restart e s)) = githubConnected s"
  "process (snd (restart e s)) = map_option exited (process s)"
  by (simp_all add: restart_def start_frame stop_frame print_frame)

lemma timers_restart: "tracked s \<Longrightarrow> timers (snd (restart e s)) = []"
  by (simp add: restart_def start_frame timers_stop tracked_simps)

lemma handleProcessFailure_frame:
  "restartCount (handleProcessFailure e s) = restartCount s + 1"
  "maxRestarts (handleProcessFailure e s) = maxRestarts s"
  "spawned (handleProcessFailure e s) = spawned s"
  "memoryStore (handleProcessFailure e s) = memoryStore s"
  "healthCheckInterval (handleProcessFailure e s) = healthCheckInterval s"
  "memoryCleanupInterval (handleProcessFailure e s) = memoryCleanupInterval s"
  "githubSyncInterval (handleProcessFailure e s) = githubSyncInterval s"
  "isRunning (handleProcessFailure e s) = (if restartCount s < maxRestarts s then False else isRunning s)"
  "process (handleProcessFailure e s) =
     (if restartCount s < maxRestarts s then map_option exited (process s) else process s)"
  by (simp_all add: handleProcessFailure_def Let_def restart_frame emit_frame print_frame)

lemma timers_handleProcessFailure: "tracked s \<Longrightarrow> timers (handleProcessFailure e s) = []"
  by (simp add: handleProcessFailure_def Let_def timers_restart timers_emit_stop tracked_simps)

lemma handleProcessFailure_gives_up:
  "maxRestarts s \<le> restartCount s \<Longrightarrow>
   handleProcessFailure e s =
     emit Failed (print Err ''Max restart attempts exceeded, giving up''
       (s\<lparr>restartCount := restartCount s + 1\<rparr>))"
  by (simp add: handleProcessFailure_def Let_def)

lemma saveMemory_frame:
  "restartCount (saveMemory e s) = restartCount s"
  "maxRestarts (saveMemory e s) = maxRestarts s"
  "isRunning (saveMemory e s) = isRunning s"
  "process (saveMemory e s) = process s"
  "spawned (saveMemory e s) = spawned s"
  "memoryStore (saveMemory e s) = memoryStore s"
  "emitted (saveMemory e s) = emitted s"
  "githubAPI (saveMemory e s) = githubAPI s"
  "githubConnected (saveMemory e s) = githubConnected s"
  "timers (saveMemory e s) = timers s"
  "tracked (saveMemory e s) = tracked s"
  by (simp_all add: saveMemory_def print_frame tracked_simps)

lemma performMemoryCleanup_frame:
  "restartCount (performMemoryCleanup e s) = restartCount s"
  "maxRestarts (performMemoryCleanup e s) = maxRestarts s"
  "isRunning (performMemoryCleanup e s) = isRunning s"
  "process (performMemoryCleanup e s) = process s"
  "spawned (performMemoryCleanup e s) = spawned s"
  "emitted (performMemoryCleanup e s) = emitted s"
  "githubAPI (performMemoryCleanup e s) = githubAPI s"
  "githubConnected (performMemoryCleanup e s) = githubConnected s"
  "timers (performMemoryCleanup e s) = timers s"
  "tracked (performMemoryCleanup e s) = tracked s"
  "memoryStore (performMemoryCleanup e s) = evict e (memoryStore s) (memoryStore s)"
  by (simp_all add: performMemoryCleanup_def log_frame saveMemory_frame tracked_simps)

lemma initializeGitHubIntegration_frame:
  "restartCount (initializeGitHubIntegration e s) = restartCount s"
  "maxRestarts (initializeGitHubIntegration e s) = maxRestarts s"
  "isRunning (initializeGitHubIntegration e s) = isRunning s"
  "process (initializeGitHubIntegration e s) = process s"
  "spawned (initializeGitHubIntegration e s) = spawned s"
  "emitted (initializeGitHubIntegration e s) = emitted s"
  "memoryStore (initializeGitHubIntegration e s) = memoryStore s"
  "timers (initializeGitHubIntegration e s) = timers s"
  "tracked (initializeGitHubIntegration e s) = tracked s"
  by (simp_all add: initializeGitHubIntegration_def Let_def print_frame tracked_simps
      split: option.splits)

lemma performGitHubSync_cases:
  "performGitHubSync e s = s
   \<or> performGitHubSync e s = print Err ''GitHub sync failed: request error'' s
   \<or> performGitHubSync e s =
       print Err ''GitHub sync failed: Cannot read properties of undefined (reading store)'' s"
  by (simp add: performGitHubSync_def memoryManager_store_def memoryManager_def
      split: option.splits prod.splits)

lemma performGitHubSync_frame:
  "restartCount (performGitHubSync e s) = restartCount s"
  "maxRestarts (performGitHubSync e s) = maxRestarts s"
  "isRunning (performGitHubSync e s) = isRunning s"
  "process (performGitHubSync e s) = process s"
  "spawned (performGitHubSync e s) = spawned s"
  "emitted (performGitHubSync e s) = emitted s"
  "memoryStore (performGitHubSync e s) = memoryStore s"
  "timers (performGitHubSync e s) = timers s"
  "tracked (performGitHubSync e s) = tracked s"
  using performGitHubSync_cases[of e s] by (auto simp: print_frame tracked_simps)

lemma tracked_stop: "tracked s \<Longrightarrow> tracked (snd (stop e s))"
  by (simp add: tracked_Nil timers_stop)

lemma tracked_start: "tracked (snd (start e s)) = tracked s"
  by (simp add: tracked_def start_frame)

lemma tracked_restart: "tracked s \<Longrightarrow> tracked (snd (restart e s))"
  by (simp add: tracked_Nil timers_restart)

lemma tracked_handleProcessFailure: "tracked s \<Longrightarrow> tracked (handleProcessFailure e s)"
  by (simp add: tracked_Nil timers_handleProcessFailure)

lemma tracked_onExit: "tracked (onExit s) = tracked s"
  by (simp add: tracked_def onExit_frame)

lemma tracked_stopMonitoring: "tracked s \<Longrightarrow> tracked (stopMonitoring s)"
  by (simp add: tracked_Nil timers_stopMonitoring)

lemma cleanup_frame:
  "restartCount (cleanup e s) = restartCount s"
  "maxRestarts (cleanup e s) = maxRestarts s"
  "spawned (cleanup e s) = spawned s"
  "isRunning (cleanup e s) = False"
  by (simp_all add: cleanup_def stop_frame saveMemory_frame stopMonitoring_frame)

lemma timers_cleanup: "tracked s \<Longrightarrow> timers (cleanup e s) = []"
  by (simp add: cleanup_def timers_stop saveMemory_frame tracked_stopMonitoring)

lemma performHealthCheck_frame:
  "restartCount (performHealthCheck e s) =
     (if detects_failure s then restartCount s + 1 else restartCount s)"
  "maxRestarts (performHealthCheck e s) = maxRestarts s"
  "spawned (performHealthCheck e s) = spawned s"
  "isRunning (performHealthCheck e s) =
     (if detects_failure s \<and> restartCount s < maxRestarts s then False else isRunning s)"
  "process (performHealthCheck e s) =
     (if detects_failure s \<and> restartCount s < maxRestarts s then map_option exited (process s)
      else process s)"
  by (simp_all add: performHealthCheck_def Let_def handleProcessFailure_frame print_frame
      log_frame performMemoryCleanup_frame initializeGitHubIntegration_frame)

lemma detects_failure_performHealthCheck:
  "detects_failure s \<Longrightarrow> detects_failure (performHealthCheck e s)"
  by (auto simp: detects_failure_def performHealthCheck_frame)

lemma tracked_performHealthCheck: "tracked s \<Longrightarrow> tracked (performHealthCheck e s)"
  by (simp add: performHealthCheck_def Let_def tracked_handleProcessFailure tracked_simps
      performMemoryCleanup_frame initializeGitHubIntegration_frame)

lemma step_frame:
  "restartCount (step (c, e) s) =
     (if c = HealthCheck \<and> detects_failure s then restartCount s + 1 else restartCount s)"
  "maxRestarts (step (c, e) s) = maxRestarts s"
  "spawned (step (c, e) s) = spawned s"
  by (cases c; simp add: start_frame stop_frame restart_frame performHealthCheck_frame
      performMemoryCleanup_frame performGitHubSync_frame onExit_frame cleanup_frame
      split: option.splits)+

lemma timers_performHealthCheck:
  "timers s = [] \<Longrightarrow> timers (performHealthCheck e s) = []"
  by (simp add: performHealthCheck_def Let_def timers_handleProcessFailure tracked_Nil
      print_frame log_frame performMemoryCleanup_frame initializeGitHubIntegration_frame)

lemma timers_step: "timers s = [] \<Longrightarrow> timers (step (c, e) s) = []"
  by (cases c) (simp_all add: start_frame timers_stop timers_restart tracked_Nil
      timers_performHealthCheck performMemoryCleanup_frame performGitHubSync_frame
      onExit_frame timers_cleanup split: option.splits)

lemma timers_run: "timers s = [] \<Longrightarrow> timers (run cs s) = []"
  unfolding run_def
proof (induction cs arbitrary: s)
  case Nil
  then show ?case by simp
next
  case (Cons a cs)
  obtain c e where a: "a = (c, e)" by (cases a)
  have "timers (step (c, e) s) = []" using Cons.prems by (rule timers_step)
  then have "timers (fold step cs (step (c, e) s)) = []" by (rule Cons.IH)
  then show ?case by (simp add: a del: step.simps)
qed

lemma tracked_step: "tracked s \<Longrightarrow> tracked (step (c, e) s)"
  by (cases c) (simp_all add: tracked_start tracked_stop tracked_restart
      tracked_performHealthCheck performMemoryCleanup_frame performGitHubSync_frame
      tracked_onExit tracked_simps tracked_Nil timers_cleanup split: option.splits)

lemma restartCount_step_mono: "restartCount s \<le> restartCount (step c s)"
  by (cases c) (simp add: step_frame del: step.simps)

lemma restartCount_run_mono: "restartCount s \<le> restartCount (run cs s)"
  unfolding run_def
proof (induction cs arbitrary: s)
  case Nil
  show ?case by simp
next
  case (Cons c cs)
  have "restartCount s \<le> restartCount (step c s)" by (rule restartCount_step_mono)
  also have "\<dots> \<le> restartCount (fold step cs (step c s))" by (rule Cons.IH)
  finally show ?case by simp
qed

lemma run_frame:
  "maxRestarts (run cs s) = maxRestarts s"
  "spawned (run cs s) = spawned s"
  unfolding run_def
  by (induction cs arbitrary: s; simp add: step_frame split_paired_all del: step.simps)+

lemma tracked_run: "tracked s \<Longrightarrow> tracked (run cs s)"
  unfolding run_def
proof (induction cs arbitrary: s)
  case Nil
  then show ?case by simp
next
  case (Cons a cs)
  obtain c e where a: "a = (c, e)" by (cases a)
  have "tracked (step (c, e) s)" using Cons.prems by (rule tracked_step)
  then have "tracked (fold step cs (step (c, e) s))" by (rule Cons.IH)
  then show ?case by (simp add: a del: step.simps)
qed

lemma not_running_step:
  assumes "\<not> isRunning s"
  shows "\<not> isRunning (step (c, e) s)"
proof (cases c)
  case Start
  then show ?thesis using assms by (simp add: start_frame)
next
  case Stop
  then show ?thesis by (simp add: stop_frame)
next
  case Restart
  then show ?thesis by (simp add: restart_frame)
next
  case Status
  then show ?thesis using assms by simp
next
  case HealthCheck
  then show ?thesis using assms by (simp add: performHealthCheck_frame)
next
  case MemoryCleanup
  then show ?thesis using assms by (simp add: performMemoryCleanup_frame)
next
  case GitHubSync
  then show ?thesis using assms by (simp add: performGitHubSync_frame)
next
  case ProcessExit
  then show ?thesis using assms by (simp add: onExit_frame split: option.splits)
next
  case Cleanup
  then show ?thesis by (simp add: cleanup_frame)
qed

lemma not_running_run: "\<not> isRunning s \<Longrightarrow> \<not> isRunning (run cs s)"
  unfolding run_def
proof (induction cs arbitrary: s)
  case Nil
  then show ?case by simp
next
  case (Cons a cs)
  obtain c e where a: "a = (c, e)" by (cases a)
  have "\<not> isRunning (step (c, e) s)" using Cons.prems by (rule not_running_step)
  then have "\<not> isRunning (fold step cs (step (c, e) s))" by (rule Cons.IH)
  then show ?case by (simp add: a del: step.simps)
qed

lemma restartCount_run: "restartCount (run cs s) = restartCount s + failures cs s"
  unfolding run_def
proof (induction cs arbitrary: s)
  case Nil
  show ?case by simp
next
  case (Cons a cs)
  obtain c e where a: "a = (c, e)" by (cases a)
  show ?case by (simp add: a Cons.IH step_frame del: step.simps)
qed

lemma health_checks_frame:
  "maxRestarts (health_checks es s) = maxRestarts s"
  "spawned (health_checks es s) = spawned s"
  unfolding health_checks_def
  by (induction es arbitrary: s; simp add: performHealthCheck_frame)+

lemma health_checks_failing:
  "detects_failure s \<Longrightarrow>
   detects_failure (health_checks es s)
   \<and> restartCount (health_checks es s) = restartCount s + length es"
  unfolding health_checks_def
  by (induction es arbitrary: s)
     (simp_all add: performHealthCheck_frame detects_failure_performHealthCheck)

lemma not_running_health_checks:
  "\<not> isRunning s \<Longrightarrow> \<not> isRunning (health_checks es s)"
  unfolding health_checks_def
  by (induction es arbitrary: s) (simp_all add: performHealthCheck_frame)

lemma health_checks_Cons:
  "health_checks (e # es) s = health_checks es (performHealthCheck e s)"
  by (simp add: health_checks_def)

lemma isRunning_health_checks:
  assumes "detects_failure s" "restartCount s < maxRestarts s" "es \<noteq> []"
  shows "\<not> isRunning (health_checks es s)"
proof -
  obtain e es' where es: "es = e # es'" using assms(3) by (cases es) auto
  have "\<not> isRunning (performHealthCheck e s)"
    using assms(1,2) by (simp add: performHealthCheck_frame)
  then show ?thesis
    unfolding es health_checks_Cons by (rule not_running_health_checks)
qed

lemma performHealthCheck_gives_up:
  "detects_failure s \<Longrightarrow> maxRestarts s \<le> restartCount s \<Longrightarrow>
   performHealthCheck e s =
     emit Failed (print Err ''Max restart attempts exceeded, giving up''
       ((print Warning ''Background agent process not running'' s)
          \<lparr>restartCount := restartCount s + 1\<rparr>))"
  by (simp add: performHealthCheck_def handleProcessFailure_gives_up print_frame)

lemma tracked_new_agent: "tracked new_agent"
  by (simp add: tracked_def new_agent_def)

lemma tracked_reachable: "tracked (run cs new_agent)"
  by (rule tracked_run[OF tracked_new_agent])

lemma new_agent_fields:
  "restartCount new_agent = 0" "maxRestarts new_agent = 5" "isRunning new_agent = False"
  "process new_agent = None" "timers new_agent = []" "spawned new_agent = 0"
  "memoryStore new_agent = []" "emitted new_agent = []" "detects_failure new_agent"
  by (simp_all add: new_agent_def detects_failure_def)

subsection \<open>Claim C2: six failed health checks in succession\<close>

text \<open>
  C2 as stated: after six health checks in succession that find the process down, no
  further spawn is attempted, the supervisor has failed for good and \<open>status()\<close> reports
  \<open>running = false\<close> and \<open>restartCount = 5\<close>. On a new supervisor each of six checks
  finds the process down, and the status then reports a restart count of 6, not 5:
  \<open>handleProcessFailure\<close> counts the failure before it compares with \<open>maxRestarts\<close>.
\<close>

theorem six_failures_report_six:
  "detects_failure new_agent
   \<and> detects_failure (health_checks [env0] new_agent)
   \<and> detects_failure (health_checks [env0, env0] new_agent)
   \<and> detects_failure (health_checks [env0, env0, env0] new_agent)
   \<and> detects_failure (health_checks [env0, env0, env0, env0] new_agent)
   \<and> detects_failure (health_checks [env0, env0, env0, env0, env0] new_agent)
   \<and> st_restartCount
        (getStatus env0 (health_checks [env0, env0, env0, env0, env0, env0] new_agent)) = 6
   \<and> st_restartCount
        (getStatus env0 (health_checks [env0, env0, env0, env0, env0, env0] new_agent)) \<noteq> 5"
  by (simp add: getStatus_def health_checks_failing new_agent_fields)

text \<open>
  C2 as amended: from a restart count of 0 with the ceiling at 5, after five health
  checks that find the process down the sixth one finds it down too, and it only counts
  the failure, reports it and emits \<open>failed\<close> (whose listener cancels the periodic
  tasks): it calls neither \<open>restart\<close> nor \<open>spawn\<close>. The status then reports
  \<open>running = false\<close> and \<open>restartCount = 6\<close>.
\<close>

theorem sixth_failure_gives_up:
  assumes "restartCount s = 0" and "maxRestarts s = 5" and "detects_failure s"
    and "length es = 5"
  shows "detects_failure (health_checks es s)
    \<and> performHealthCheck e (health_checks es s) =
        emit Failed (print Err ''Max restart attempts exceeded, giving up''
          ((print Warning ''Background agent process not running'' (health_checks es s))
             \<lparr>restartCount := 6\<rparr>))
    \<and> spawned (performHealthCheck e (health_checks es s)) = spawned s
    \<and> st_isRunning (getStatus e' (performHealthCheck e (health_checks es s))) = False
    \<and> st_restartCount (getStatus e' (performHealthCheck e (health_checks es s))) = 6"
proof -
  let ?s5 = "health_checks es s"
  have d: "detects_failure ?s5" and c: "restartCount ?s5 = 5"
    using health_checks_failing[OF assms(3), of es] assms(1,4) by simp_all
  have m: "maxRestarts ?s5 = 5" by (simp add: health_checks_frame assms(2))
  have r: "\<not> isRunning ?s5"
    using assms by (intro isRunning_health_checks) auto
  have g: "performHealthCheck e ?s5 =
        emit Failed (print Err ''Max restart attempts exceeded, giving up''
          ((print Warning ''Background agent process not running'' ?s5)
             \<lparr>restartCount := 6\<rparr>))"
    using performHealthCheck_gives_up[OF d, of e] c m by simp
  have "spawned (performHealthCheck e ?s5) = spawned s"
    by (simp add: performHealthCheck_frame health_checks_frame)
  moreover have "isRunning (performHealthCheck e ?s5) = False"
    using r by (simp add: performHealthCheck_frame)
  moreover have "restartCount (performHealthCheck e ?s5) = 6"
    using d c by (simp add: performHealthCheck_frame)
  ultimately show ?thesis using d g by (simp add: getStatus_def)
qed

theorem sixth_failure_gives_up_witness:
  "restartCount new_agent = 0 \<and> maxRestarts new_agent = 5 \<and> detects_failure new_agent
   \<and> length [env0, env0, env0, env0, env_late] = 5
   \<and> emitted (performHealthCheck env0 (health_checks [env0, env0, env0, env0, env_late] new_agent))
       = emitted (health_checks [env0, env0, env0, env0, env_late] new_agent) @ [Failed]
   \<and> st_isRunning (getStatus env0
         (performHealthCheck env0 (health_checks [env0, env0, env0, env0, env_late] new_agent)))
       = False
   \<and> st_restartCount (getStatus env0
         (performHealthCheck env0 (health_checks [env0, env0, env0, env0, env_late] new_agent)))
       = 6"
proof -
  have h: "restartCount new_agent = 0" "maxRestarts new_agent = 5" "detects_failure new_agent"
    "length [env0, env0, env0, env0, env_late] = 5"
    by (simp_all add: new_agent_fields)
  let ?s5 = "health_checks [env0, env0, env0, env0, env_late] new_agent"
  note w = sixth_failure_gives_up[OF h, of env0 env0]
  from w have g: "performHealthCheck env0 ?s5 =
        emit Failed (print Err ''Max restart attempts exceeded, giving up''
          ((print Warning ''Background agent process not running'' ?s5)
             \<lparr>restartCount := 6\<rparr>))"
    by (rule conjunct1[OF conjunct2])
  have "emitted (performHealthCheck env0 ?s5) = emitted ?s5 @ [Failed]"
    unfolding g by (simp add: emit_frame print_frame)
  moreover from w have "st_isRunning (getStatus env0 (performHealthCheck env0 ?s5)) = False"
    by (elim conjE)
  moreover from w have "st_restartCount (getStatus env0 (performHealthCheck env0 ?s5)) = 6"
    by (elim conjE)
  ultimately show ?thesis using h by blast
qed

subsection \<open>Claim C3: start with default configuration, then an external kill\<close>

text \<open>
  C3 says that after \<open>start()\<close> with the default configuration \<open>status()\<close> reports
  \<open>running = true\<close> and \<open>restartCount = 0\<close>, and that after an external kill the next
  health check brings \<open>restartCount = 1\<close> and \<open>running = true\<close> again. In the code
  \<open>start\<close> fails (see C1): the status after it reports \<open>running = false\<close> and no pid,
  there is no child that could be killed, and the next health check counts one restart
  whose \<open>start\<close> fails again, so the status still reports \<open>running = false\<close>.
\<close>

theorem default_start_is_not_running:
  "st_isRunning (getStatus e1 (snd (start e new_agent))) = False
   \<and> st_pid (getStatus e1 (snd (start e new_agent))) = None
   \<and> st_restartCount (getStatus e1 (snd (start e new_agent))) = 0
   \<and> step (ProcessExit, e2) (snd (start e new_agent)) = snd (start e new_agent)
   \<and> st_restartCount (getStatus e4 (performHealthCheck e3 (snd (start e new_agent)))) = 1
   \<and> st_isRunning (getStatus e4 (performHealthCheck e3 (snd (start e new_agent)))) = False"
  by (simp add: getStatus_def start_frame performHealthCheck_frame new_agent_fields
      detects_failure_def)

theorem default_start_is_not_running_witness:
  "st_isRunning (getStatus env0 (snd (start env0 new_agent))) = False
   \<and> st_restartCount (getStatus env0 (snd (start env0 new_agent))) = 0
   \<and> st_restartCount (getStatus env0 (performHealthCheck env0 (snd (start env0 new_agent)))) = 1
   \<and> st_isRunning (getStatus env0 (performHealthCheck env0 (snd (start env0 new_agent)))) = False"
  using default_start_is_not_running[of env0 env0 env0 env0 env0] by blast

subsection \<open>Claim C4: what changes the restart counter\<close>

text \<open>
  C4 as stated: the counter is incremented by every health-triggered restart and by
  nothing else. After five failed health checks on a new supervisor the counter is 5; the
  next failed check raises it to 6 although it restarts nothing (it emits \<open>failed\<close> only,
  where a restart would emit \<open>stopped\<close>).
\<close>

theorem give_up_still_counts:
  "restartCount (health_checks [env0, env0, env0, env0, env0] new_agent) = 5
   \<and> detects_failure (health_checks [env0, env0, env0, env0, env0] new_agent)
   \<and> restartCount (performHealthCheck env0 (health_checks [env0, env0, env0, env0, env0] new_agent))
       = 6
   \<and> emitted (performHealthCheck env0 (health_checks [env0, env0, env0, env0, env0] new_agent))
       = emitted (health_checks [env0, env0, env0, env0, env0] new_agent) @ [Failed]"
proof -
  let ?s5 = "health_checks [env0, env0, env0, env0, env0] new_agent"
  have d: "detects_failure ?s5" and c: "restartCount ?s5 = 5"
    using health_checks_failing[of new_agent "[env0, env0, env0, env0, env0]"]
    by (simp_all add: new_agent_fields)
  have m: "maxRestarts ?s5 \<le> restartCount ?s5"
    by (simp add: c health_checks_frame new_agent_fields)
  have "emitted (performHealthCheck env0 ?s5) = emitted ?s5 @ [Failed]"
    unfolding performHealthCheck_gives_up[OF d m] by (simp add: emit_frame print_frame)
  moreover have "restartCount (performHealthCheck env0 ?s5) = 6"
    using d c by (simp add: performHealthCheck_frame)
  ultimately show ?thesis using d c by blast
qed

text \<open>
  C4 as amended: the counter is incremented by every health check that finds the process
  down, whether \<open>handleProcessFailure\<close> then restarts or gives up, and by nothing
  else: an explicit \<open>restart()\<close> leaves \<open>restartCount\<close> and \<open>maxRestarts\<close> as they
  were, and so does every other call.
\<close>

theorem restartCount_only_counts_failures:
  "restartCount (snd (restart e s)) = restartCount s
   \<and> maxRestarts (snd (restart e s)) = maxRestarts s
   \<and> restartCount (step (c, e) s) =
       (if c = HealthCheck \<and> detects_failure s then restartCount s + 1 else restartCount s)
   \<and> maxRestarts (step (c, e) s) = maxRestarts s"
  by (simp add: restart_frame step_frame del: step.simps)

theorem restartCount_only_counts_failures_witness:
  "restartCount (snd (restart env0 armed_agent)) = 0
   \<and> maxRestarts (snd (restart env0 armed_agent)) = 5
   \<and> restartCount (step (Restart, env0) armed_agent) = 0
   \<and> restartCount (step (HealthCheck, env0) new_agent) = 1"
proof -
  have a: "restartCount armed_agent = 0" "maxRestarts armed_agent = 5"
    by (simp_all add: armed_agent_def startMonitoring_def setInterval_def new_agent_def)
  show ?thesis
    using restartCount_only_counts_failures[of env0 armed_agent Restart]
      restartCount_only_counts_failures[of env0 new_agent HealthCheck]
    by (simp add: a new_agent_fields del: step.simps)
qed

subsection \<open>Claim C5: the external sync\<close>

text \<open>
  C5 says that a sync with a connected session and a successful fetch stores the fetched
  data in the memory store, and that a failure of the sync is logged and leaves process
  health and the running state alone. The second half holds; the first does not: with a
  connected session and a successful fetch the call of \<open>this.memoryManager.store\<close>
  throws, the sync prints that error and the memory store and its entry count stay as
  they were.
\<close>

theorem github_sync_stores_nothing:
  assumes "githubAPI s" and "githubConnected s" and "listResult e = Some (True, repos)"
  shows "performGitHubSync e s =
      print Err ''GitHub sync failed: Cannot read properties of undefined (reading store)'' s
    \<and> memoryStore (performGitHubSync e s) = memoryStore s
    \<and> st_memoryEntries (getStatus e' (performGitHubSync e s)) = st_memoryEntries (getStatus e' s)
    \<and> isRunning (performGitHubSync e s) = isRunning s
    \<and> process (performGitHubSync e s) = process s
    \<and> restartCount (performGitHubSync e s) = restartCount s"
  using assms
  by (simp add: performGitHubSync_frame getStatus_def)
     (simp add: performGitHubSync_def memoryManager_store_def memoryManager_def)

theorem github_sync_stores_nothing_witness:
  "githubAPI connected_agent \<and> githubConnected connected_agent
   \<and> listResult env_sync = Some (True, ''[repo]'')
   \<and> memoryStore (performGitHubSync env_sync connected_agent) = []
   \<and> st_memoryEntries (getStatus env0 (performGitHubSync env_sync connected_agent)) = 0
   \<and> error_lines (performGitHubSync env_sync connected_agent) =
       [(Err, ''GitHub sync failed: Cannot read properties of undefined (reading store)'')]"
proof -
  have h: "githubAPI connected_agent" "githubConnected connected_agent"
    "listResult env_sync = Some (True, ''[repo]'')"
    by (simp_all add: connected_agent_def env_sync_def)
  have m: "memoryStore connected_agent = []" "error_lines connected_agent = []"
    by (simp_all add: connected_agent_def new_agent_def error_lines_def)
  note w = github_sync_stores_nothing[OF h, of env0]
  from w have g: "performGitHubSync env_sync connected_agent =
      print Err ''GitHub sync failed: Cannot read properties of undefined (reading store)''
        connected_agent"
    by (rule conjunct1)
  have "error_lines (performGitHubSync env_sync connected_agent) =
       [(Err, ''GitHub sync failed: Cannot read properties of undefined (reading store)'')]"
    unfolding g by (simp add: error_lines_simps m)
  moreover have "memoryStore (performGitHubSync env_sync connected_agent) = []"
    unfolding g by (simp add: print_frame m)
  moreover have "st_memoryEntries (getStatus env0 (performGitHubSync env_sync connected_agent)) = 0"
    by (simp add: getStatus_def performGitHubSync_frame m)
  ultimately show ?thesis using h by blast
qed

subsection \<open>Claim C6: eviction by age\<close>

lemma distinct_evict_self:
  "distinct (map fst st) \<Longrightarrow> distinct (map fst (evict e st st))"
  by (simp add: evict_self distinct_map_filter)

text \<open>
  C6: for every memory store (a \<open>Map\<close>, so its keys are distinct) and every current
  time, after \<open>performMemoryCleanup\<close> no entry of the store is older than \<open>maxAge\<close>,
  every entry that was at most \<open>maxAge\<close> old is still there under its key with its
  payload and timestamp, and nothing else is in the store.
\<close>

theorem cleanup_evicts_exactly_the_old:
  assumes "distinct (map fst (memoryStore s))"
  shows "(\<forall>(k, en) \<in> set (memoryStore (performMemoryCleanup e s)). age e en \<le> maxAge)
    \<and> (\<forall>(k, en) \<in> set (memoryStore s).
          age e en \<le> maxAge \<longrightarrow> (k, en) \<in> set (memoryStore (performMemoryCleanup e s)))
    \<and> set (memoryStore (performMemoryCleanup e s)) \<subseteq> set (memoryStore s)
    \<and> distinct (map fst (memoryStore (performMemoryCleanup e s)))"
proof -
  have eq: "memoryStore (performMemoryCleanup e s) =
      filter (\<lambda>(k, en). age e en \<le> maxAge) (memoryStore s)"
    by (simp add: performMemoryCleanup_frame evict_self[OF assms])
  show ?thesis
    unfolding eq using assms by (auto simp: distinct_map_filter)
qed

theorem cleanup_evicts_exactly_the_old_witness:
  "distinct (map fst sample_store)
   \<and> age env_late \<lparr>payload = ''a'', timestamp = 0\<rparr> > maxAge
   \<and> age env_late \<lparr>payload = ''b'', timestamp = 99999999\<rparr> \<le> maxAge
   \<and> (''stale'', \<lparr>payload = ''a'', timestamp = 0\<rparr>)
       \<notin> set (memoryStore (performMemoryCleanup env_late (new_agent\<lparr>memoryStore := sample_store\<rparr>)))
   \<and> (''fresh'', \<lparr>payload = ''b'', timestamp = 99999999\<rparr>)
       \<in> set (memoryStore (performMemoryCleanup env_late (new_agent\<lparr>memoryStore := sample_store\<rparr>)))"
proof -
  let ?s = "new_agent\<lparr>memoryStore := sample_store\<rparr>"
  have d: "distinct (map fst (memoryStore ?s))" by (simp add: sample_store_def)
  have a1: "age env_late \<lparr>payload = ''a'', timestamp = 0\<rparr> > maxAge"
    and a2: "age env_late \<lparr>payload = ''b'', timestamp = 99999999\<rparr> \<le> maxAge"
    by (simp_all add: age_def env_late_def env0_def maxAge_def)
  note w = cleanup_evicts_exactly_the_old[OF d, of env_late]
  have "(''fresh'', \<lparr>payload = ''b'', timestamp = 99999999\<rparr>)
       \<in> set (memoryStore (performMemoryCleanup env_late ?s))"
    using w a2 by (auto simp: sample_store_def)
  moreover have "(''stale'', \<lparr>payload = ''a'', timestamp = 0\<rparr>)
       \<notin> set (memoryStore (performMemoryCleanup env_late ?s))"
    using w a1 by (auto simp: sample_store_def)
  ultimately show ?thesis using d a1 a2 by simp
qed

subsection \<open>Claim C7: persist, then load\<close>

text \<open>
  C7: for every memory store (keys distinct) whose write to disk succeeds, loading the
  saved file into the empty store of a new supervisor gives exactly the entries that
  were saved: the same keys, each with its payload and timestamp, and no others.
\<close>

theorem save_then_load_roundtrip:
  assumes "distinct (map fst (memoryStore s))" and "writeOk e"
  shows "set (memoryStore (loadMemory (new_agent\<lparr>memoryFile := memoryFile (saveMemory e s)\<rparr>)))
       = set (memoryStore s)
    \<and> map_of (memoryStore (loadMemory (new_agent\<lparr>memoryFile := memoryFile (saveMemory e s)\<rparr>)))
       = map_of (memoryStore s)
    \<and> distinct (map fst
         (memoryStore (loadMemory (new_agent\<lparr>memoryFile := memoryFile (saveMemory e s)\<rparr>))))
    \<and> length (memoryStore (loadMemory (new_agent\<lparr>memoryFile := memoryFile (saveMemory e s)\<rparr>)))
       = length (memoryStore s)"
proof -
  have f: "memoryFile (saveMemory e s) = Some (memoryStore s)"
    using assms by (simp add: saveMemory_def fromEntries_distinct)
  have "fold (\<lambda>(key, v) m. AList.update key v m) (memoryStore s) [] = memoryStore s"
    using fold_update_distinct[of "[]" "memoryStore s"] assms(1) by simp
  then have "memoryStore (loadMemory (new_agent\<lparr>memoryFile := memoryFile (saveMemory e s)\<rparr>))
      = memoryStore s"
    by (simp add: f loadMemory_def new_agent_def)
  then show ?thesis using assms(1) by simp
qed

theorem save_then_load_roundtrip_witness:
  "distinct (map fst sample_store) \<and> writeOk env0
   \<and> set (memoryStore (loadMemory
        (new_agent\<lparr>memoryFile := memoryFile (saveMemory env0 (new_agent\<lparr>memoryStore := sample_store\<rparr>))\<rparr>)))
     = {(''stale'', \<lparr>payload = ''a'', timestamp = 0\<rparr>),
        (''fresh'', \<lparr>payload = ''b'', timestamp = 99999999\<rparr>)}"
proof -
  let ?s = "new_agent\<lparr>memoryStore := sample_store\<rparr>"
  have d: "distinct (map fst (memoryStore ?s))" by (simp add: sample_store_def)
  have w: "writeOk env0" by (simp add: env0_def)
  from save_then_load_roundtrip[OF d w] show ?thesis
    using w by (auto simp: sample_store_def)
qed

subsection \<open>Claims C8 and C9: \<open>stop\<close>\<close>

lemma isRunning_method_stop: "isRunning_method (snd (stop e s)) = False"
  by (cases "process s") (simp_all add: isRunning_method_def stop_frame exited_def)

lemma exited_twice: "map_option exited (map_option exited p) = map_option exited p"
  by (cases p) (simp_all add: exited_def)

text \<open>
  C8: \<open>stop()\<close> called twice in a row returns true both times and leaves the running
  flag false both times; neither call prints an error or emits \<open>error\<close>. The second
  call, on the stopped supervisor, emits \<open>stopped\<close> once more and leaves the process
  handle, the restart counter, the memory store and the running flag as the first call
  left them.
\<close>

theorem stop_twice_succeeds:
  "fst (stop e1 s) = True
   \<and> fst (stop e2 (snd (stop e1 s))) = True
   \<and> isRunning (snd (stop e1 s)) = False
   \<and> isRunning (snd (stop e2 (snd (stop e1 s)))) = False
   \<and> error_lines (snd (stop e2 (snd (stop e1 s)))) = error_lines s
   \<and> emitted (snd (stop e2 (snd (stop e1 s)))) = emitted (snd (stop e1 s)) @ [Stopped]
   \<and> process (snd (stop e2 (snd (stop e1 s)))) = process (snd (stop e1 s))
   \<and> restartCount (snd (stop e2 (snd (stop e1 s)))) = restartCount s
   \<and> memoryStore (snd (stop e2 (snd (stop e1 s)))) = memoryStore s"
proof -
  have "emitted (snd (stop e2 (snd (stop e1 s)))) = emitted (snd (stop e1 s)) @ [Stopped]"
    using stop_frame(14)[of e2 "snd (stop e1 s)"] by (simp add: isRunning_method_stop)
  then show ?thesis by (simp add: stop_frame exited_twice)
qed

theorem stop_twice_succeeds_witness:
  "fst (stop env0 armed_agent) = True
   \<and> fst (stop env_late (snd (stop env0 armed_agent))) = True
   \<and> isRunning armed_agent = True
   \<and> isRunning (snd (stop env0 armed_agent)) = False
   \<and> isRunning (snd (stop env_late (snd (stop env0 armed_agent)))) = False
   \<and> error_lines (snd (stop env_late (snd (stop env0 armed_agent)))) = []"
proof -
  have a: "isRunning armed_agent = True" "error_lines armed_agent = []"
    by (simp_all add: armed_agent_def startMonitoring_def setInterval_def new_agent_def
        error_lines_def)
  from stop_twice_succeeds[of env0 armed_agent env_late] show ?thesis
    using a by simp
qed

text \<open>
  Where the live intervals are the ones held in the three handle fields, \<open>stop()\<close>
  returns true and no interval is live in the state it returns: the listener of
  \<open>stopped\<close> has run \<open>stopMonitoring\<close> before \<open>stop\<close> returns, and no later call
  makes an interval live again. A supervisor armed once is such a state.
\<close>

lemma stop_cancels_tracked_intervals:
  assumes "tracked s"
  shows "fst (stop e s) = True \<and> timers (snd (stop e s)) = []
    \<and> timers (run cs (snd (stop e s))) = []"
  using assms by (simp add: stop_frame timers_stop timers_run)

lemma stop_cancels_armed_once:
  "tracked armed_agent
   \<and> timers armed_agent = [(0, HealthCheckTask), (1, MemoryCleanupTask), (2, GitHubSyncTask)]
   \<and> fst (stop env0 armed_agent) = True
   \<and> timers (snd (stop env0 armed_agent)) = []
   \<and> timers (run interleaved_calls (snd (stop env0 armed_agent))) = []"
proof -
  have t: "tracked armed_agent"
    and a: "timers armed_agent = [(0, HealthCheckTask), (1, MemoryCleanupTask), (2, GitHubSyncTask)]"
    by (simp_all add: tracked_def armed_agent_def startMonitoring_def setInterval_def
        new_agent_def)
  from stop_cancels_tracked_intervals[OF t, of env0 interleaved_calls] show ?thesis
    using t a by simp
qed





subsection \<open>Claim C10: the restart counter over the lifetime\<close>

text \<open>
  C10: over every sequence of calls the restart counter never decreases: it grows by
  the number of health checks that found the process down, and no call of \<open>start\<close>,
  \<open>stop\<close> or \<open>restart\<close> resets it. So once as many failures as \<open>maxRestarts\<close> have
  been counted, at any time and in any order with other calls, every later failure is
  one too many: \<open>handleProcessFailure\<close> gives up.
\<close>

theorem restartCount_never_reset:
  "restartCount s \<le> restartCount (run cs s)
   \<and> restartCount (run cs s) = restartCount s + failures cs s
   \<and> maxRestarts (run cs s) = maxRestarts s
   \<and> (maxRestarts s \<le> restartCount s \<longrightarrow>
        handleProcessFailure e (run cs s) =
          emit Failed (print Err ''Max restart attempts exceeded, giving up''
            ((run cs s)\<lparr>restartCount := restartCount (run cs s) + 1\<rparr>)))"
proof -
  have "maxRestarts (run cs s) \<le> restartCount (run cs s)" if "maxRestarts s \<le> restartCount s"
    using that restartCount_run_mono[of s cs] by (simp add: run_frame)
  then show ?thesis
    by (simp add: restartCount_run_mono restartCount_run[symmetric] run_frame
        handleProcessFailure_gives_up)
qed

theorem restartCount_never_reset_witness:
  "restartCount (run interleaved_calls new_agent) = 5
   \<and> failures interleaved_calls new_agent = 5
   \<and> maxRestarts (run interleaved_calls new_agent) = 5
   \<and> emitted (handleProcessFailure env0 (run [(Stop, env0)] (run interleaved_calls new_agent)))
       = emitted (run [(Stop, env0)] (run interleaved_calls new_agent)) @ [Failed]"
proof -
  have nr: "\<And>c e s. \<not> isRunning s \<Longrightarrow> isRunning (step (c, e) s) = False"
    using not_running_step by simp
  have df: "\<And>s. \<not> isRunning s \<Longrightarrow> detects_failure s"
    by (simp add: detects_failure_def)
  have f: "failures interleaved_calls new_agent = 5"
    by (simp add: interleaved_calls_def nr df new_agent_fields del: step.simps)
  note w = restartCount_never_reset[of new_agent interleaved_calls env0]
  from w f have c: "restartCount (run interleaved_calls new_agent) = 5"
    by (simp add: new_agent_fields)
  from w have m: "maxRestarts (run interleaved_calls new_agent) = 5"
    by (simp add: new_agent_fields)
  let ?s = "run interleaved_calls new_agent"
  have "maxRestarts ?s \<le> restartCount ?s" by (simp add: c m)
  with restartCount_never_reset[of ?s "[(Stop, env0)]" env0]
  have "handleProcessFailure env0 (run [(Stop, env0)] ?s) =
          emit Failed (print Err ''Max restart attempts exceeded, giving up''
            ((run [(Stop, env0)] ?s)\<lparr>restartCount := restartCount (run [(Stop, env0)] ?s) + 1\<rparr>))"
    by blast
  then have "emitted (handleProcessFailure env0 (run [(Stop, env0)] ?s))
      = emitted (run [(Stop, env0)] ?s) @ [Failed]"
    by (simp add: emit_frame print_frame)
  then show ?thesis using c f m by blast
qed

end
